theory Spec2Isabelle
  imports Complex_Main
begin

section \<open>Conventions\<close>

text \<open>
  The pipeline is written in Python. Its \<^verbatim>\<open>float\<close> values are modelled as
  \<^typ>\<open>real\<close> numbers (exact arithmetic, no rounding of the binary representation),
  its unbounded \<^verbatim>\<open>int\<close> values as \<^typ>\<open>int\<close>, its \<^verbatim>\<open>str\<close> values as
  \<^typ>\<open>string\<close>, \<^verbatim>\<open>Optional[T]\<close> as \<^typ>\<open>'a option\<close>. A dictionary whose
  iteration order is observable is an association list in insertion order; a dictionary that
  is only looked up is a map. A method that assigns attributes takes the object and returns
  the new one. Names follow the source; a private method loses its leading underscore, a
  field shared by several classes gets a prefix (\<open>f_\<close>, \<open>sb_\<close>, \<open>st_\<close>, \<open>m_\<close>,
  \<open>a_\<close>), and a local variable that would shadow a field is shortened.
\<close>

section \<open>Phone-risk decay (main.py, signal fusion step)\<close>

text \<open>
  \<^verbatim>\<open>student_phone_risk\<close> is a dictionary from track id to the current risk.
  For each student of a sampled frame:
  \<^verbatim>\<open>
  if has_phone:
    student_phone_risk[track_id] = 1.0
  else:
    current_risk = student_phone_risk.get(track_id, 0.0)
    student_phone_risk[track_id] = current_risk * 0.85
  \<close>
\<close>

type_synonym phone_risk_map = "int \<rightharpoonup> real"

definition risk_get :: "phone_risk_map \<Rightarrow> int \<Rightarrow> real" where
  "risk_get student_phone_risk track_id =
     (case student_phone_risk track_id of None \<Rightarrow> 0 | Some r \<Rightarrow> r)"

definition update_phone_risk :: "phone_risk_map \<Rightarrow> int \<Rightarrow> bool \<Rightarrow> phone_risk_map" where
  "update_phone_risk student_phone_risk track_id has_phone =
     (if has_phone then student_phone_risk(track_id \<mapsto> 1)
      else (let current_risk = risk_get student_phone_risk track_id
            in student_phone_risk(track_id \<mapsto> current_risk * 0.85)))"

text \<open>The frames of a run, flattened to the (track id, contact flag) pairs in processing order.\<close>

fun run_frames :: "phone_risk_map \<Rightarrow> (int \<times> bool) list \<Rightarrow> phone_risk_map" where
  "run_frames m [] = m"
| "run_frames m ((track_id, has_phone) # es) =
     run_frames (update_phone_risk m track_id has_phone) es"

section \<open>Sliding-window buffer (memory/feature_buffer.py)\<close>

text \<open>The dataclass \<^verbatim>\<open>BufferedFeature\<close>.\<close>

record buffered_feature =
  f_timestamp :: real
  f_head_direction :: string
  f_phone_detected :: bool
  f_confidence :: real
  f_bbox :: "real \<times> real \<times> real \<times> real"
  f_identity_name :: "string option"

text \<open>
  The class \<^verbatim>\<open>StudentFeatureBuffer\<close>: \<^verbatim>\<open>features\<close> is a deque, its head
  the head of the list; \<^verbatim>\<open>last_update\<close> is \<^verbatim>\<open>None\<close> until the first add.
\<close>

record student_feature_buffer =
  sb_track_id :: int
  window_size :: real
  features :: "buffered_feature list"
  last_update :: "real option"

definition new_student_buffer :: "int \<Rightarrow> real \<Rightarrow> student_feature_buffer" where
  "new_student_buffer track_id w =
     \<lparr>sb_track_id = track_id, window_size = w, features = [], last_update = None\<rparr>"

text \<open>
  \<^verbatim>\<open>while self.features and self.features[0].timestamp < cutoff_time: self.features.popleft()\<close>
\<close>

fun prune_loop :: "real \<Rightarrow> buffered_feature list \<Rightarrow> buffered_feature list" where
  "prune_loop cutoff_time [] = []"
| "prune_loop cutoff_time (f # fs) =
     (if f_timestamp f < cutoff_time then prune_loop cutoff_time fs else f # fs)"

definition prune_old_features :: "student_feature_buffer \<Rightarrow> real \<Rightarrow> student_feature_buffer" where
  "prune_old_features self current_timestamp =
     (let cutoff_time = current_timestamp - window_size self
      in self\<lparr>features := prune_loop cutoff_time (features self)\<rparr>)"

definition add_feature ::
  "student_feature_buffer \<Rightarrow> real \<Rightarrow> string \<Rightarrow> bool \<Rightarrow> real \<Rightarrow> real \<times> real \<times> real \<times> real
     \<Rightarrow> string option \<Rightarrow> student_feature_buffer" where
  "add_feature self timestamp head_direction phone_detected confidence bbox identity_name =
     (let feature = \<lparr>f_timestamp = timestamp, f_head_direction = head_direction,
                      f_phone_detected = phone_detected, f_confidence = confidence,
                      f_bbox = bbox, f_identity_name = identity_name\<rparr>;
          self1 = self\<lparr>features := features self @ [feature], last_update := Some timestamp\<rparr>
      in prune_old_features self1 timestamp)"

text \<open>Adding an observation given as a record of the six arguments, and a sequence of them.\<close>

definition add_obs :: "student_feature_buffer \<Rightarrow> buffered_feature \<Rightarrow> student_feature_buffer" where
  "add_obs self f =
     add_feature self (f_timestamp f) (f_head_direction f) (f_phone_detected f)
       (f_confidence f) (f_bbox f) (f_identity_name f)"

fun add_all :: "student_feature_buffer \<Rightarrow> buffered_feature list \<Rightarrow> student_feature_buffer" where
  "add_all self [] = self"
| "add_all self (f # fs) = add_all (add_obs self f) fs"

subsection \<open>Statistics\<close>

text \<open>
  \<^verbatim>\<open>round(x, ndigits)\<close> on a float rounds to the nearest multiple of
  \<open>10\<^sup>-\<^sup>n\<close>, a tie going to the even neighbour. On reals:
\<close>

definition round_half_even :: "real \<Rightarrow> int" where
  "round_half_even x =
     (let f = \<lfloor>x\<rfloor>; d = x - of_int f
      in if d < 1 / 2 then f else if 1 / 2 < d then f + 1
         else if even f then f else f + 1)"

definition py_round :: "real \<Rightarrow> nat \<Rightarrow> real" where
  "py_round x ndigits = of_int (round_half_even (x * 10 ^ ndigits)) / 10 ^ ndigits"

text \<open>
  \<^verbatim>\<open>direction_count = defaultdict(int)\<close> with \<^verbatim>\<open>direction_count[d] += 1\<close>:
  a dictionary in insertion order.
\<close>

fun dict_incr :: "string \<Rightarrow> (string \<times> int) list \<Rightarrow> (string \<times> int) list" where
  "dict_incr k [] = [(k, 1)]"
| "dict_incr k ((k', c) # kvs) =
     (if k = k' then (k', c + 1) # kvs else (k', c) # dict_incr k kvs)"

fun count_directions ::
  "(string \<times> int) list \<Rightarrow> buffered_feature list \<Rightarrow> (string \<times> int) list" where
  "count_directions direction_count [] = direction_count"
| "count_directions direction_count (f # fs) =
     count_directions (dict_incr (f_head_direction f) direction_count) fs"

text \<open>
  The dictionary returned by \<^verbatim>\<open>get_statistics\<close>. A field is \<open>None\<close> when the key
  is absent (the empty result has no \<^verbatim>\<open>time_span\<close>, \<^verbatim>\<open>phone_detections\<close>,
  \<^verbatim>\<open>most_recent_direction\<close> and \<^verbatim>\<open>identity_name\<close>) or its value is
  \<^verbatim>\<open>None\<close>.
\<close>

record buffer_stats =
  st_track_id :: int
  st_feature_count :: "int option"
  st_time_span :: "real option"
  st_avg_confidence :: "real option"
  st_phone_detection_rate :: "real option"
  st_phone_detections :: "int option"
  st_head_direction_distribution :: "(string \<times> real) list option"
  st_most_recent_direction :: "string option"
  st_last_update :: "real option"
  st_identity_name :: "string option"

definition direction_dist :: "buffered_feature list \<Rightarrow> (string \<times> real) list" where
  "direction_dist features_list =
     (let total = length features_list;
          direction_count = count_directions [] features_list
      in map (\<lambda>(direction, count). (direction, real_of_int count / real total)) direction_count)"

definition get_statistics :: "student_feature_buffer \<Rightarrow> buffer_stats" where
  "get_statistics self =
     (if features self = [] then
        \<lparr>st_track_id = sb_track_id self, st_feature_count = Some 0, st_time_span = None,
         st_avg_confidence = Some 0, st_phone_detection_rate = Some 0,
         st_phone_detections = None, st_head_direction_distribution = Some [],
         st_most_recent_direction = None, st_last_update = last_update self,
         st_identity_name = None\<rparr>
      else
        (let features_list = features self;
             total = length features_list;
             phone_detections = length (filter f_phone_detected features_list);
             phone_rate = real phone_detections / real total;
             avg_conf = sum_list (map f_confidence features_list) / real total;
             most_recent_direction = f_head_direction (last features_list)
         in \<lparr>st_track_id = sb_track_id self, st_feature_count = Some (int total),
             st_time_span = Some (if 1 < length features_list
                then f_timestamp (last features_list) - f_timestamp (hd features_list) else 0),
             st_avg_confidence = Some (py_round avg_conf 3),
             st_phone_detection_rate = Some (py_round phone_rate 3),
             st_phone_detections = Some (int phone_detections),
             st_head_direction_distribution =
               Some (map (\<lambda>(k, v). (k, py_round v 3)) (direction_dist features_list)),
             st_most_recent_direction = Some most_recent_direction,
             st_last_update = last_update self,
             st_identity_name = f_identity_name (last features_list)\<rparr>))"

subsection \<open>The buffers of all students\<close>

text \<open>
  The class \<^verbatim>\<open>FeatureBuffer\<close>: \<^verbatim>\<open>buffers\<close> is a dictionary from track id to
  buffer, iterated in insertion order; its keys are distinct.
\<close>

record feature_buffer =
  fb_window_size :: real
  buffers :: "(int \<times> student_feature_buffer) list"

definition get_student_buffer :: "feature_buffer \<Rightarrow> int \<Rightarrow> student_feature_buffer option" where
  "get_student_buffer self track_id = map_of (buffers self) track_id"

definition get_student_statistics :: "feature_buffer \<Rightarrow> int \<Rightarrow> buffer_stats option" where
  "get_student_statistics self track_id =
     (case map_of (buffers self) track_id of
        Some buffer \<Rightarrow> Some (get_statistics buffer)
      | None \<Rightarrow> None)"

text \<open>The first loop of \<^verbatim>\<open>cleanup_inactive_students\<close>, over \<^verbatim>\<open>self.buffers.items()\<close>.\<close>

fun inactive_ids :: "real \<Rightarrow> real \<Rightarrow> (int \<times> student_feature_buffer) list \<Rightarrow> int list" where
  "inactive_ids current_timestamp timeout [] = []"
| "inactive_ids current_timestamp timeout ((track_id, buffer) # rest) =
     (case last_update buffer of
        None \<Rightarrow> inactive_ids current_timestamp timeout rest
      | Some lu \<Rightarrow>
          (let time_since_update = current_timestamp - lu
           in if time_since_update > timeout
              then track_id # inactive_ids current_timestamp timeout rest
              else inactive_ids current_timestamp timeout rest))"

text \<open>\<^verbatim>\<open>del d[k]\<close> for a key of the dictionary.\<close>

definition dict_del :: "int \<Rightarrow> (int \<times> 'v) list \<Rightarrow> (int \<times> 'v) list" where
  "dict_del k d = filter (\<lambda>(k', v). k' \<noteq> k) d"

definition cleanup_inactive_students ::
  "feature_buffer \<Rightarrow> real \<Rightarrow> real \<Rightarrow> int list \<times> feature_buffer" where
  "cleanup_inactive_students self current_timestamp timeout =
     (let to_remove = inactive_ids current_timestamp timeout (buffers self);
          removed = to_remove
      in (removed, self\<lparr>buffers := fold dict_del to_remove (buffers self)\<rparr>))"

section \<open>Temporal aggregator (signals/temporal_aggregator.py)\<close>

text \<open>The dataclass \<^verbatim>\<open>BehavioralMetrics\<close>; its categorical fields are strings.\<close>

record behavioral_metrics =
  m_track_id :: int
  m_timestamp :: real
  observation_duration :: real
  sample_count :: int
  attention_score :: real
  looking_away_rate :: real
  direction_stability :: real
  phone_risk_score :: real
  phone_detection_rate :: real
  phone_trend :: string
  engagement_risk_level :: string
  engagement_risk_score :: real
  primary_behavior :: string
  avg_confidence :: real
  data_quality :: string
  m_identity_name :: "string option"

text \<open>
  The class \<^verbatim>\<open>TemporalAggregator\<close>: its only attribute is
  \<^verbatim>\<open>phone_history\<close>, a dictionary from track id to a list of floats, created empty.
\<close>

record temporal_aggregator =
  phone_history :: "int \<rightharpoonup> real list"

definition new_temporal_aggregator :: temporal_aggregator where
  "new_temporal_aggregator = \<lparr>phone_history = Map.empty\<rparr>"

definition cleanup_track_history :: "temporal_aggregator \<Rightarrow> int \<Rightarrow> temporal_aggregator" where
  "cleanup_track_history self track_id =
     (if track_id \<in> dom (phone_history self)
      then self\<lparr>phone_history := (phone_history self)(track_id := None)\<rparr>
      else self)"

definition calculate_phone_risk :: "int \<Rightarrow> real \<Rightarrow> real" where
  "calculate_phone_risk track_id current_phone_rate = min 1 (max 0 current_phone_rate)"

text \<open>
  \<^verbatim>\<open>history[-3:]\<close> is the last three elements, \<^verbatim>\<open>history[:-3]\<close> all but the last
  three; \<^verbatim>\<open>history[0]\<close> and \<^verbatim>\<open>history[-1]\<close> are read only where the list has
  at least two elements.
\<close>

definition calculate_phone_trend :: "temporal_aggregator \<Rightarrow> int \<Rightarrow> real \<Rightarrow> string" where
  "calculate_phone_trend self track_id current_phone_rate =
     (case phone_history self track_id of
        None \<Rightarrow> ''stable''
      | Some history \<Rightarrow>
          if length history < 2 then ''stable''
          else
            (let (recent_avg, older_avg) =
                   (if 3 \<le> length history then
                      (sum_list (drop (length history - 3) history) / 3,
                       if 3 < length history
                       then sum_list (take (length history - 3) history)
                              / real (length (take (length history - 3) history))
                       else hd history)
                    else (last history, hd history));
                 threshold = 0.1
             in if recent_avg > older_avg + threshold then ''increasing''
                else if recent_avg < older_avg - threshold then ''decreasing''
                else ''stable''))"

definition determine_primary_behavior ::
  "real \<Rightarrow> real \<Rightarrow> (string \<times> real) list \<Rightarrow> string" where
  "determine_primary_behavior attention phone_rate head_directions =
     (if phone_rate > 0.3 then ''distracted_phone''
      else if attention < 0.5 then ''distracted_other''
      else ''attentive'')"

definition calculate_engagement_risk :: "real \<Rightarrow> real \<Rightarrow> real \<Rightarrow> real" where
  "calculate_engagement_risk attention phone_risk looking_away =
     (let risk = (1 - attention) * 0.4 + phone_risk * 0.35 + looking_away * 0.25
      in min 1 (max 0 risk))"

definition classify_risk_level :: "real \<Rightarrow> string" where
  "classify_risk_level risk_score =
     (if risk_score < 0.33 then ''low''
      else if risk_score < 0.67 then ''medium''
      else ''high'')"

definition assess_data_quality :: "int \<Rightarrow> real \<Rightarrow> string" where
  "assess_data_quality samples confidence =
     (if samples < 5 \<or> confidence < 0.6 then ''low''
      else if samples < 20 \<or> confidence < 0.75 then ''medium''
      else ''high'')"

definition create_empty_metrics :: "int \<Rightarrow> real \<Rightarrow> behavioral_metrics" where
  "create_empty_metrics track_id current_timestamp =
     \<lparr>m_track_id = track_id, m_timestamp = current_timestamp,
      observation_duration = 0, sample_count = 0,
      attention_score = 0.5, looking_away_rate = 0.5, direction_stability = 0,
      phone_risk_score = 0, phone_detection_rate = 0, phone_trend = ''stable'',
      engagement_risk_level = ''low'', engagement_risk_score = 0.5,
      primary_behavior = ''unknown'', avg_confidence = 0, data_quality = ''low'',
      m_identity_name = None\<rparr>"

text \<open>\<^verbatim>\<open>d.get(key, default)\<close> and \<^verbatim>\<open>max\<close> of a non-empty sequence.\<close>

definition get_or :: "'a option \<Rightarrow> 'a \<Rightarrow> 'a" where
  "get_or v dflt = (case v of None \<Rightarrow> dflt | Some x \<Rightarrow> x)"

fun py_max :: "real list \<Rightarrow> real" where
  "py_max [] = 0"
| "py_max (x # xs) = fold max xs x"

text \<open>
  \<^verbatim>\<open>aggregate\<close> reads \<^verbatim>\<open>self.phone_history\<close> and assigns no attribute of
  \<^verbatim>\<open>self\<close>. The unused local \<^verbatim>\<open>forward_rate\<close> is left out;
  \<^verbatim>\<open>py_max\<close> is called on a non-empty list only.
\<close>

definition aggregate ::
  "temporal_aggregator \<Rightarrow> int \<Rightarrow> real \<Rightarrow> buffer_stats \<Rightarrow> real option \<Rightarrow> behavioral_metrics" where
  "aggregate self track_id current_timestamp stats raw_phone_risk =
     (let samples = get_or (st_feature_count stats) 0;
          duration = get_or (st_time_span stats) 0;
          confidence = get_or (st_avg_confidence stats) 0;
          phone_rate = get_or (st_phone_detection_rate stats) 0;
          head_directions = get_or (st_head_direction_distribution stats) [];
          identity = st_identity_name stats
      in if samples = 0 then create_empty_metrics track_id current_timestamp
         else
          (let most_recent_direction = st_most_recent_direction stats;
               attention = (if most_recent_direction = Some ''forward'' then 1 else 0);
               looking_away = 1 - attention;
               stability = (if head_directions \<noteq> [] then py_max (map snd head_directions)
                            else 0.5);
               (risk, trend) =
                 (case raw_phone_risk of
                    Some raw \<Rightarrow> (raw, calculate_phone_trend self track_id raw)
                  | None \<Rightarrow> (calculate_phone_risk track_id phone_rate,
                             calculate_phone_trend self track_id phone_rate));
               behavior = determine_primary_behavior attention phone_rate head_directions;
               risk_score = calculate_engagement_risk attention risk looking_away;
               risk_level = classify_risk_level risk_score;
               quality = assess_data_quality samples confidence
           in \<lparr>m_track_id = track_id, m_timestamp = current_timestamp,
               observation_duration = duration, sample_count = samples,
               attention_score = attention, looking_away_rate = looking_away,
               direction_stability = stability,
               phone_risk_score = risk, phone_detection_rate = phone_rate,
               phone_trend = trend,
               engagement_risk_level = risk_level, engagement_risk_score = risk_score,
               primary_behavior = behavior, avg_confidence = confidence,
               data_quality = quality, m_identity_name = identity\<rparr>))"

text \<open>The public operations of an aggregator, and a run of them from a given state.\<close>

datatype aggregator_op =
  Aggregate int real buffer_stats "real option"
| CleanupTrackHistory int

fun run_ops ::
  "temporal_aggregator \<Rightarrow> aggregator_op list \<Rightarrow> behavioral_metrics list \<times> temporal_aggregator" where
  "run_ops self [] = ([], self)"
| "run_ops self (Aggregate track_id ts stats raw # ops) =
     (aggregate self track_id ts stats raw # fst (run_ops self ops), snd (run_ops self ops))"
| "run_ops self (CleanupTrackHistory track_id # ops) =
     run_ops (cleanup_track_history self track_id) ops"

section \<open>Rule engine (inference/behavior_rules.py)\<close>

datatype alert_level = INFO | WARNING | CRITICAL

datatype alert_type =
  SUSTAINED_INATTENTION
| PHONE_USAGE
| PHONE_USAGE_INCREASING
| COMBINED_DISTRACTION
| HIGH_RISK_BEHAVIOR
| ATTENTION_DROP
| QUALITY_WARNING

text \<open>
  A message is an f-string: its literal pieces and the values it formats. \<open>Percent1 x\<close>
  stands for \<open>x\<close> under the format \<^verbatim>\<open>.1%\<close>, which is not expanded here. The
  \<^verbatim>\<open>metrics\<close> of an alert is a dictionary from names to numbers and strings.
\<close>

datatype msg_part = Text string | Percent1 real

datatype metric_value = IntVal int | FloatVal real | StrVal string

record behavior_alert =
  a_track_id :: int
  a_timestamp :: real
  alert_type :: alert_type
  alert_level :: alert_level
  message :: "msg_part list"
  a_metrics :: "(string \<times> metric_value) list"
  recommended_action :: string
  a_identity_name :: "string option"

text \<open>
  The class \<^verbatim>\<open>BehaviorRuleEngine\<close>: four thresholds read from the configuration
  and \<^verbatim>\<open>previous_metrics\<close>, a dictionary from track id to the last stored snapshot.
\<close>

record rule_engine =
  attention_threshold :: real
  phone_risk_threshold :: real
  engagement_risk_threshold :: real
  min_samples_for_alert :: int
  previous_metrics :: "int \<rightharpoonup> behavioral_metrics"

record engine_config =
  cfg_attention_threshold :: "real option"
  cfg_phone_risk_threshold :: "real option"
  cfg_engagement_risk_threshold :: "real option"
  cfg_min_samples_for_alert :: "int option"

definition empty_config :: engine_config where
  "empty_config = \<lparr>cfg_attention_threshold = None, cfg_phone_risk_threshold = None,
     cfg_engagement_risk_threshold = None, cfg_min_samples_for_alert = None\<rparr>"

definition new_rule_engine :: "engine_config option \<Rightarrow> rule_engine" where
  "new_rule_engine config =
     (let config = get_or config empty_config
      in \<lparr>attention_threshold = get_or (cfg_attention_threshold config) 0.5,
          phone_risk_threshold = get_or (cfg_phone_risk_threshold config) 0.4,
          engagement_risk_threshold = get_or (cfg_engagement_risk_threshold config) 0.6,
          min_samples_for_alert = get_or (cfg_min_samples_for_alert config) 5,
          previous_metrics = Map.empty\<rparr>)"

text \<open>\<^verbatim>\<open>str\<close> of an integer, in decimal.\<close>

definition digit_char :: "nat \<Rightarrow> char" where
  "digit_char d = char_of (48 + d)"

function str_nat :: "nat \<Rightarrow> string" where
  "str_nat n = (if n < 10 then [digit_char n] else str_nat (n div 10) @ [digit_char (n mod 10)])"
  by pat_completeness auto
termination
  by (relation "measure id") auto

declare str_nat.simps [simp del]

definition str_int :: "int \<Rightarrow> string" where
  "str_int i = (if i < 0 then CHR ''-'' # str_nat (nat (- i)) else str_nat (nat i))"

text \<open>
  \<^verbatim>\<open>student_ref = metrics.identity_name or f"Student #{metrics.track_id}"\<close>: the
  name unless it is \<^verbatim>\<open>None\<close> or empty.
\<close>

definition student_ref :: "behavioral_metrics \<Rightarrow> string" where
  "student_ref metrics =
     (case m_identity_name metrics of
        Some name \<Rightarrow> if name \<noteq> [] then name else ''Student #'' @ str_int (m_track_id metrics)
      | None \<Rightarrow> ''Student #'' @ str_int (m_track_id metrics))"

text \<open>The alert built inline on the low-quality path of \<^verbatim>\<open>evaluate\<close>.\<close>

definition quality_warning :: "behavioral_metrics \<Rightarrow> behavior_alert" where
  "quality_warning metrics =
     \<lparr>a_track_id = m_track_id metrics, a_timestamp = m_timestamp metrics,
      alert_type = QUALITY_WARNING, alert_level = INFO,
      message = [Text ''Low data quality for '', Text (student_ref metrics)],
      a_metrics = [(''sample_count'', IntVal (sample_count metrics))],
      recommended_action = ''Wait for more samples before making decisions'',
      a_identity_name = m_identity_name metrics\<rparr>"

definition rule_high_risk :: "behavioral_metrics \<Rightarrow> behavior_alert" where
  "rule_high_risk metrics =
     \<lparr>a_track_id = m_track_id metrics, a_timestamp = m_timestamp metrics,
      alert_type = HIGH_RISK_BEHAVIOR, alert_level = CRITICAL,
      message = [Text (student_ref metrics), Text '' shows high-risk behavior pattern''],
      a_metrics = [(''engagement_risk_score'', FloatVal (engagement_risk_score metrics)),
                   (''primary_behavior'', StrVal (primary_behavior metrics)),
                   (''attention_score'', FloatVal (attention_score metrics)),
                   (''phone_risk_score'', FloatVal (phone_risk_score metrics))],
      recommended_action = ''Immediate intervention recommended - check on student'',
      a_identity_name = m_identity_name metrics\<rparr>"

definition rule_sustained_inattention :: "behavioral_metrics \<Rightarrow> behavior_alert" where
  "rule_sustained_inattention metrics =
     (let severity = (if attention_score metrics < 0.3 then CRITICAL else WARNING)
      in \<lparr>a_track_id = m_track_id metrics, a_timestamp = m_timestamp metrics,
          alert_type = SUSTAINED_INATTENTION, alert_level = severity,
          message = [Text (student_ref metrics), Text '' showing sustained inattention ('',
                     Percent1 (attention_score metrics), Text '')''],
          a_metrics = [(''attention_score'', FloatVal (attention_score metrics)),
                       (''looking_away_rate'', FloatVal (looking_away_rate metrics)),
                       (''duration'', FloatVal (observation_duration metrics)),
                       (''sample_count'', IntVal (sample_count metrics))],
          recommended_action = ''Monitor closely or provide gentle reminder to focus'',
          a_identity_name = m_identity_name metrics\<rparr>)"

definition rule_phone_usage :: "behavioral_metrics \<Rightarrow> behavior_alert" where
  "rule_phone_usage metrics =
     (let severity = (if phone_risk_score metrics > 0.6 then CRITICAL else WARNING)
      in \<lparr>a_track_id = m_track_id metrics, a_timestamp = m_timestamp metrics,
          alert_type = PHONE_USAGE, alert_level = severity,
          message = [Text (student_ref metrics), Text '' likely using phone (risk: '',
                     Percent1 (phone_risk_score metrics), Text '')''],
          a_metrics = [(''phone_risk_score'', FloatVal (phone_risk_score metrics)),
                       (''phone_detection_rate'', FloatVal (phone_detection_rate metrics)),
                       (''phone_trend'', StrVal (phone_trend metrics))],
          recommended_action = ''Politely ask student to put away phone'',
          a_identity_name = m_identity_name metrics\<rparr>)"

definition rule_phone_increasing :: "behavioral_metrics \<Rightarrow> behavior_alert" where
  "rule_phone_increasing metrics =
     \<lparr>a_track_id = m_track_id metrics, a_timestamp = m_timestamp metrics,
      alert_type = PHONE_USAGE_INCREASING, alert_level = WARNING,
      message = [Text (student_ref metrics), Text '' phone usage trend is increasing''],
      a_metrics = [(''phone_trend'', StrVal (phone_trend metrics)),
                   (''phone_detection_rate'', FloatVal (phone_detection_rate metrics)),
                   (''phone_risk_score'', FloatVal (phone_risk_score metrics))],
      recommended_action = ''Watch closely - may need intervention soon'',
      a_identity_name = m_identity_name metrics\<rparr>"

definition rule_combined_distraction :: "behavioral_metrics \<Rightarrow> behavior_alert" where
  "rule_combined_distraction metrics =
     \<lparr>a_track_id = m_track_id metrics, a_timestamp = m_timestamp metrics,
      alert_type = COMBINED_DISTRACTION, alert_level = CRITICAL,
      message = [Text (student_ref metrics),
                 Text '' showing combined distraction (phone + looking away)''],
      a_metrics = [(''phone_risk_score'', FloatVal (phone_risk_score metrics)),
                   (''looking_away_rate'', FloatVal (looking_away_rate metrics)),
                   (''attention_score'', FloatVal (attention_score metrics))],
      recommended_action = ''Immediate intervention - student is significantly distracted'',
      a_identity_name = m_identity_name metrics\<rparr>"

definition rule_attention_drop :: "rule_engine \<Rightarrow> behavioral_metrics \<Rightarrow> behavior_alert option" where
  "rule_attention_drop self metrics =
     (case previous_metrics self (m_track_id metrics) of
        None \<Rightarrow> None
      | Some prev \<Rightarrow>
          (let attention_change = attention_score metrics - attention_score prev
           in if attention_change < - 0.3 \<and> sample_count metrics \<ge> 5 then
                Some \<lparr>a_track_id = m_track_id metrics, a_timestamp = m_timestamp metrics,
                  alert_type = ATTENTION_DROP, alert_level = WARNING,
                  message = [Text (student_ref metrics), Text '' attention dropped significantly''],
                  a_metrics = [(''previous_attention'', FloatVal (attention_score prev)),
                               (''current_attention'', FloatVal (attention_score metrics)),
                               (''change'', FloatVal attention_change)],
                  recommended_action = ''Check if student needs help or is confused'',
                  a_identity_name = m_identity_name metrics\<rparr>
              else None))"

text \<open>
  \<^verbatim>\<open>evaluate\<close> returns the alerts and leaves the engine in a new state. The
  low-quality branch returns before the rules and before the assignment
  \<^verbatim>\<open>self.previous_metrics[track_id] = behavioral_metrics\<close>, which is the last
  statement of the other branch.
\<close>

definition evaluate :: "rule_engine \<Rightarrow> behavioral_metrics \<Rightarrow> behavior_alert list \<times> rule_engine" where
  "evaluate self metrics =
     (if data_quality metrics = ''low'' \<and> sample_count metrics < 3 then
        (if sample_count metrics > 0 then [quality_warning metrics] else [], self)
      else
        (let alerts = [];
             alerts = (if engagement_risk_level metrics = ''high''
                       then alerts @ [rule_high_risk metrics] else alerts);
             alerts = (if attention_score metrics < attention_threshold self
                          \<and> sample_count metrics \<ge> min_samples_for_alert self
                       then alerts @ [rule_sustained_inattention metrics] else alerts);
             alerts = (if phone_risk_score metrics > phone_risk_threshold self
                       then alerts @ [rule_phone_usage metrics] else alerts);
             alerts = (if phone_trend metrics = ''increasing''
                          \<and> phone_detection_rate metrics > 0.2
                       then alerts @ [rule_phone_increasing metrics] else alerts);
             alerts = (if phone_risk_score metrics > 0.3 \<and> looking_away_rate metrics > 0.6
                       then alerts @ [rule_combined_distraction metrics] else alerts);
             alerts = (case rule_attention_drop self metrics of
                         Some attention_drop_alert \<Rightarrow> alerts @ [attention_drop_alert]
                       | None \<Rightarrow> alerts)
         in (alerts,
             self\<lparr>previous_metrics := (previous_metrics self)(m_track_id metrics \<mapsto> metrics)\<rparr>)))"

section \<open>Auxiliary notions used in the statements\<close>

text \<open>The invariant of the risk map: every stored risk lies in the unit interval.\<close>

definition risks_in_unit :: "phone_risk_map \<Rightarrow> bool" where
  "risks_in_unit m = (\<forall>k r. m k = Some r \<longrightarrow> 0 \<le> r \<and> r \<le> 1)"

text \<open>The distribution a statistics query returns (empty when the key is absent).\<close>

definition returned_distribution :: "student_feature_buffer \<Rightarrow> (string \<times> real) list" where
  "returned_distribution self = get_or (st_head_direction_distribution (get_statistics self)) []"

text \<open>An aggregator whose trend history for one entity is set, or removed.\<close>

definition with_history :: "temporal_aggregator \<Rightarrow> int \<Rightarrow> real list \<Rightarrow> temporal_aggregator" where
  "with_history self track_id h = self\<lparr>phone_history := (phone_history self)(track_id \<mapsto> h)\<rparr>"

definition without_history :: "temporal_aggregator \<Rightarrow> int \<Rightarrow> temporal_aggregator" where
  "without_history self track_id = self\<lparr>phone_history := (phone_history self)(track_id := None)\<rparr>"

text \<open>The arithmetic mean, and the three-way comparison with tolerance 0.1.\<close>

definition mean :: "real list \<Rightarrow> real" where
  "mean xs = sum_list xs / real (length xs)"

definition trend_of :: "real \<Rightarrow> real \<Rightarrow> string" where
  "trend_of recent older =
     (if recent - older > 1 / 10 then ''increasing''
      else if older - recent > 1 / 10 then ''decreasing''
      else ''stable'')"

text \<open>
  The trend classification as the specification words it: with at least three samples the
  mean of the last three is compared with the mean of the samples before them, or with the
  single earliest sample if fewer than three precede.
\<close>

definition spec_phone_trend :: "real list \<Rightarrow> string" where
  "spec_phone_trend h =
     (if length h < 2 then ''stable''
      else if 3 \<le> length h then
        (let preceding = take (length h - 3) h
         in trend_of (mean (drop (length h - 3) h))
              (if length preceding < 3 then hd h else mean preceding))
      else trend_of (last h) (hd h))"

subsection \<open>Sample inputs\<close>

definition obs_at :: "real \<Rightarrow> string \<Rightarrow> buffered_feature" where
  "obs_at t d = \<lparr>f_timestamp = t, f_head_direction = d, f_phone_detected = False,
     f_confidence = 9 / 10, f_bbox = (0, 0, 1, 1), f_identity_name = None\<rparr>"

definition three_directions :: student_feature_buffer where
  "three_directions =
     add_all (new_student_buffer 1 60)
       [obs_at 0 ''forward'', obs_at 1 ''left'', obs_at 2 ''right'']"

definition sample_buffers :: feature_buffer where
  "sample_buffers =
     \<lparr>fb_window_size = 60,
      buffers = [(1, add_obs (new_student_buffer 1 60) (obs_at 0 ''forward'')),
                 (2, add_obs (new_student_buffer 2 60) (obs_at 250 ''left''))]\<rparr>"

definition sample_metrics :: "int \<Rightarrow> string \<Rightarrow> behavioral_metrics" where
  "sample_metrics n quality =
     \<lparr>m_track_id = 7, m_timestamp = 12,
      observation_duration = 3, sample_count = n,
      attention_score = 0, looking_away_rate = 1, direction_stability = 1,
      phone_risk_score = 1, phone_detection_rate = 1, phone_trend = ''increasing'',
      engagement_risk_level = ''high'', engagement_risk_score = 1,
      primary_behavior = ''distracted_phone'', avg_confidence = 0.5, data_quality = quality,
      m_identity_name = None\<rparr>"

definition quiet_metrics :: behavioral_metrics where
  "quiet_metrics =
     \<lparr>m_track_id = 7, m_timestamp = 12,
      observation_duration = 9, sample_count = 10,
      attention_score = 1, looking_away_rate = 0, direction_stability = 1,
      phone_risk_score = 0, phone_detection_rate = 0, phone_trend = ''stable'',
      engagement_risk_level = ''low'', engagement_risk_score = 0,
      primary_behavior = ''attentive'', avg_confidence = 0.9, data_quality = ''medium'',
      m_identity_name = None\<rparr>"

definition sample_stats :: "int \<Rightarrow> string \<Rightarrow> buffer_stats" where
  "sample_stats n direction =
     \<lparr>st_track_id = 7, st_feature_count = Some n, st_time_span = Some 3,
      st_avg_confidence = Some 0.9, st_phone_detection_rate = Some 0.5,
      st_phone_detections = Some 2,
      st_head_direction_distribution = Some [(direction, 1)],
      st_most_recent_direction = Some direction, st_last_update = Some 12,
      st_identity_name = None\<rparr>"

section \<open>Decay bounds\<close>

lemma risk_get_in_unit:
  assumes "risks_in_unit m"
  shows "0 \<le> risk_get m k \<and> risk_get m k \<le> 1"
  using assms by (auto simp: risks_in_unit_def risk_get_def split: option.splits)

lemma update_phone_risk_in_unit:
  assumes "risks_in_unit m"
  shows "risks_in_unit (update_phone_risk m k b)"
proof -
  have g: "0 \<le> risk_get m k" "risk_get m k \<le> 1"
    using risk_get_in_unit [OF assms] by auto
  have "0 \<le> risk_get m k * 0.85" "risk_get m k * 0.85 \<le> 1"
    using g by auto
  with assms show ?thesis
    by (auto simp: risks_in_unit_def update_phone_risk_def Let_def)
qed

lemma run_frames_in_unit:
  "risks_in_unit m \<Longrightarrow> risks_in_unit (run_frames m es)"
  by (induction m es rule: run_frames.induct) (simp_all add: update_phone_risk_in_unit)

lemma run_frames_append:
  "run_frames m (es @ fs) = run_frames (run_frames m es) fs"
  by (induction m es rule: run_frames.induct) simp_all

text \<open>
  Claim C7. Starting with no stored risk (read as 0.0), after any finite sequence of
  per-frame contact flags, for this and any other entities, the risk of an entity lies in
  [0,1], and right after a frame in which the entity is in contact it is exactly 1.
\<close>

theorem decay_bounds:
  "0 \<le> risk_get (run_frames Map.empty es) t
   \<and> risk_get (run_frames Map.empty es) t \<le> 1
   \<and> risk_get (run_frames Map.empty (es @ [(t, True)])) t = 1"
proof -
  have "risks_in_unit (run_frames Map.empty es)"
    by (rule run_frames_in_unit) (simp add: risks_in_unit_def)
  then have "0 \<le> risk_get (run_frames Map.empty es) t
      \<and> risk_get (run_frames Map.empty es) t \<le> 1"
    by (rule risk_get_in_unit)
  moreover have "risk_get (run_frames Map.empty (es @ [(t, True)])) t = 1"
    by (simp add: run_frames_append update_phone_risk_def risk_get_def)
  ultimately show ?thesis by simp
qed

section \<open>The sliding window\<close>

lemma prune_loop_sorted:
  "sorted (map f_timestamp fs) \<Longrightarrow>
   prune_loop c fs = filter (\<lambda>f. \<not> f_timestamp f < c) fs"
proof (induction fs)
  case Nil
  then show ?case by simp
next
  case (Cons f fs)
  show ?case
  proof (cases "f_timestamp f < c")
    case True
    with Cons show ?thesis by simp
  next
    case False
    with Cons.prems have "\<forall>g\<in>set fs. \<not> f_timestamp g < c" by auto
    then have "filter (\<lambda>f. \<not> f_timestamp f < c) fs = fs" by simp
    with False show ?thesis by simp
  qed
qed

lemma features_add_obs:
  "features (add_obs b f) = prune_loop (f_timestamp f - window_size b) (features b @ [f])"
  by (cases f) (simp add: add_obs_def add_feature_def prune_old_features_def Let_def)

lemma window_size_add_obs: "window_size (add_obs b f) = window_size b"
  by (simp add: add_obs_def add_feature_def prune_old_features_def Let_def)

lemma last_update_add_obs: "last_update (add_obs b f) = Some (f_timestamp f)"
  by (simp add: add_obs_def add_feature_def prune_old_features_def Let_def)

lemma window_size_add_all: "window_size (add_all b fs) = window_size b"
  by (induction b fs rule: add_all.induct) (simp_all add: window_size_add_obs)

lemma sorted_filter_ts:
  "sorted (map f_timestamp fs) \<Longrightarrow> sorted (map f_timestamp (filter P fs))"
  by (induction fs) auto

lemma add_all_sorted:
  "sorted (map f_timestamp (features b @ fs)) \<Longrightarrow>
   sorted (map f_timestamp (features (add_all b fs)))
   \<and> set (features (add_all b fs)) \<subseteq> set (features b) \<union> set fs"
proof (induction b fs rule: add_all.induct)
  case (1 self)
  then show ?case by simp
next
  case (2 self f fs)
  let ?c = "f_timestamp f - window_size self"
  have s1: "sorted (map f_timestamp (features self @ [f]))"
    using "2.prems" by (auto simp: sorted_append)
  have eq: "features (add_obs self f) = filter (\<lambda>g. \<not> f_timestamp g < ?c) (features self @ [f])"
    by (simp add: features_add_obs prune_loop_sorted [OF s1])
  have sub: "set (features (add_obs self f)) \<subseteq> set (features self) \<union> {f}"
    unfolding eq by auto
  have "sorted (map f_timestamp (features (add_obs self f) @ fs))"
    using "2.prems" sub sorted_filter_ts [OF s1, of "\<lambda>g. \<not> f_timestamp g < ?c"]
    unfolding eq [symmetric]
    by (auto simp: sorted_append)
  from "2.IH" [OF this] sub show ?case by auto
qed

text \<open>
  Claim C6. Let a buffer be filled from empty by observations with non-decreasing
  timestamps, and let one more observation \<open>f\<close>, not older than them, be added. Then the add
  appends \<open>f\<close> at the tail and removes exactly the entries older than the cutoff
  \<open>timestamp f - window_size\<close>; every retained observation has a timestamp at least the
  cutoff; \<open>last_update\<close> is the timestamp of \<open>f\<close>; and for a non-negative window \<open>f\<close>
  itself is retained as the last entry.
\<close>

theorem window_invariant:
  assumes "sorted (map f_timestamp (obs @ [f]))"
  shows "let b = add_all (new_student_buffer track_id w) obs; b' = add_obs b f
         in features b' = filter (\<lambda>g. \<not> f_timestamp g < f_timestamp f - w) (features b @ [f])
          \<and> (\<forall>g\<in>set (features b'). f_timestamp f - w \<le> f_timestamp g)
          \<and> last_update b' = Some (f_timestamp f)
          \<and> (0 \<le> w \<longrightarrow> features b' \<noteq> [] \<and> last (features b') = f)"
proof -
  define b where "b = add_all (new_student_buffer track_id w) obs"
  have w: "window_size b = w"
    by (simp add: b_def window_size_add_all new_student_buffer_def)
  have "sorted (map f_timestamp (features (new_student_buffer track_id w) @ obs))"
    using assms by (simp add: new_student_buffer_def sorted_append)
  from add_all_sorted [OF this]
  have sb: "sorted (map f_timestamp (features b))" and sub: "set (features b) \<subseteq> set obs"
    by (auto simp: b_def new_student_buffer_def)
  have s1: "sorted (map f_timestamp (features b @ [f]))"
    using sb sub assms by (auto simp: sorted_append)
  have eq: "features (add_obs b f)
      = filter (\<lambda>g. \<not> f_timestamp g < f_timestamp f - w) (features b @ [f])"
    by (simp add: features_add_obs prune_loop_sorted [OF s1] w)
  have inv: "\<forall>g\<in>set (features (add_obs b f)). f_timestamp f - w \<le> f_timestamp g"
    unfolding eq by auto
  have tail: "0 \<le> w \<longrightarrow> features (add_obs b f) \<noteq> [] \<and> last (features (add_obs b f)) = f"
    unfolding eq by simp
  show ?thesis
    unfolding Let_def b_def [symmetric]
    using eq inv tail last_update_add_obs by blast
qed

lemma sample_window_fill:
  "features (add_all (new_student_buffer 7 2) [obs_at 0 ''forward'', obs_at 1 ''left''])
     = [obs_at 0 ''forward'', obs_at 1 ''left'']"
  by (simp add: features_add_obs window_size_add_obs new_student_buffer_def obs_at_def)

theorem window_invariant_witness:
  "sorted (map f_timestamp ([obs_at 0 ''forward'', obs_at 1 ''left''] @ [obs_at 3 ''right'']))
   \<and> features (add_obs (add_all (new_student_buffer 7 2) [obs_at 0 ''forward'', obs_at 1 ''left''])
        (obs_at 3 ''right'')) = [obs_at 1 ''left'', obs_at 3 ''right'']
   \<and> last_update (add_obs (add_all (new_student_buffer 7 2)
        [obs_at 0 ''forward'', obs_at 1 ''left'']) (obs_at 3 ''right'')) = Some 3"
proof -
  have h: "sorted (map f_timestamp
      ([obs_at 0 ''forward'', obs_at 1 ''left''] @ [obs_at 3 ''right'']))"
    by (simp add: obs_at_def)
  have ts: "f_timestamp (obs_at 0 ''forward'') = 0" "f_timestamp (obs_at 1 ''left'') = 1"
    "f_timestamp (obs_at 3 ''right'') = 3"
    by (simp_all add: obs_at_def)
  from window_invariant [OF h, of 7 2] h show ?thesis
    unfolding Let_def sample_window_fill by (simp add: ts)
qed

section \<open>Eviction of inactive students\<close>

lemma set_inactive_ids:
  "set (inactive_ids now timeout kvs)
     = {k. \<exists>b lu. (k, b) \<in> set kvs \<and> last_update b = Some lu \<and> now - lu > timeout}"
  by (induction now timeout kvs rule: inactive_ids.induct)
     (auto simp: Let_def split: option.splits)

lemma inactive_ids_keys: "set (inactive_ids now timeout kvs) \<subseteq> fst ` set kvs"
  by (auto simp: set_inactive_ids intro: rev_image_eqI)

lemma distinct_inactive_ids:
  "distinct (map fst kvs) \<Longrightarrow> distinct (inactive_ids now timeout kvs)"
proof (induction now timeout kvs rule: inactive_ids.induct)
  case (1 now timeout)
  then show ?case by simp
next
  case (2 now timeout track_id buffer rest)
  have "track_id \<notin> set (inactive_ids now timeout rest)"
    using "2.prems" inactive_ids_keys [of now timeout rest] by auto
  with 2 show ?case
    by (auto simp: Let_def split: option.splits)
qed

lemma fold_dict_del: "fold dict_del ks d = filter (\<lambda>(k, v). k \<notin> set ks) d"
proof (induction ks arbitrary: d)
  case Nil
  then show ?case by simp
next
  case (Cons k ks)
  have "fold dict_del (k # ks) d = fold dict_del ks (dict_del k d)"
    by simp
  also have "\<dots> = filter (\<lambda>(k', v). k' \<notin> set ks) (dict_del k d)"
    by (rule Cons.IH)
  also have "\<dots> = filter (\<lambda>(k', v). k' \<notin> set (k # ks)) d"
    unfolding dict_del_def by (induction d) auto
  finally show ?case .
qed

lemma map_of_without:
  "map_of (filter (\<lambda>(k, v). k \<notin> S) d) k = (if k \<in> S then None else map_of d k)"
  by (induction d) auto

lemma inactive_ids_filter:
  "set (inactive_ids now timeout (filter (\<lambda>(k, v). k \<notin> S) d))
     \<subseteq> set (inactive_ids now timeout d) - S"
  by (auto simp: set_inactive_ids)

text \<open>
  Claim C9. For a buffer dictionary (distinct keys), \<^verbatim>\<open>cleanup_inactive_students\<close>
  returns exactly the ids whose buffer has a \<open>last_update\<close> with
  \<open>now - last_update > timeout\<close>, each once; so an id is absent from the output while
  \<open>now - last_update \<le> timeout\<close>. The returned ids have no buffer and no statistics
  afterwards, the other buffers are untouched, and no later cleanup returns them again.
\<close>

theorem eviction:
  assumes dist: "distinct (map fst (buffers fb))"
  shows "set (fst (cleanup_inactive_students fb now timeout))
        = {k. \<exists>b lu. get_student_buffer fb k = Some b
              \<and> last_update b = Some lu \<and> now - lu > timeout}
     \<and> distinct (fst (cleanup_inactive_students fb now timeout))
     \<and> (\<forall>k\<in>set (fst (cleanup_inactive_students fb now timeout)).
          get_student_buffer (snd (cleanup_inactive_students fb now timeout)) k = None
          \<and> get_student_statistics (snd (cleanup_inactive_students fb now timeout)) k = None)
     \<and> (\<forall>k. k \<notin> set (fst (cleanup_inactive_students fb now timeout)) \<longrightarrow>
          get_student_buffer (snd (cleanup_inactive_students fb now timeout)) k
            = get_student_buffer fb k)
     \<and> (\<forall>now' timeout'.
          set (fst (cleanup_inactive_students
                 (snd (cleanup_inactive_students fb now timeout)) now' timeout'))
            \<inter> set (fst (cleanup_inactive_students fb now timeout)) = {})"
proof -
  define removed where "removed = fst (cleanup_inactive_students fb now timeout)"
  define fb' where "fb' = snd (cleanup_inactive_students fb now timeout)"
  have r: "removed = inactive_ids now timeout (buffers fb)"
    and b': "buffers fb' = filter (\<lambda>(k, v). k \<notin> set removed) (buffers fb)"
    by (auto simp: removed_def fb'_def cleanup_inactive_students_def Let_def fold_dict_del)
  have mem: "(k, b) \<in> set (buffers fb) \<longleftrightarrow> map_of (buffers fb) k = Some b" for k b
    using dist by simp
  have c1: "set removed = {k. \<exists>b lu. get_student_buffer fb k = Some b
              \<and> last_update b = Some lu \<and> now - lu > timeout}"
    by (simp add: r set_inactive_ids mem get_student_buffer_def)
  have c2: "distinct removed"
    unfolding r using dist by (rule distinct_inactive_ids)
  have c3: "\<forall>k\<in>set removed. get_student_buffer fb' k = None
            \<and> get_student_statistics fb' k = None"
    by (simp add: get_student_buffer_def get_student_statistics_def b' map_of_without)
  have c4: "\<forall>k. k \<notin> set removed \<longrightarrow> get_student_buffer fb' k = get_student_buffer fb k"
    by (simp add: get_student_buffer_def b' map_of_without)
  have c5: "\<forall>now' timeout'. set (fst (cleanup_inactive_students fb' now' timeout'))
            \<inter> set removed = {}"
    using inactive_ids_filter [of _ _ "set removed" "buffers fb"]
    by (auto simp: cleanup_inactive_students_def Let_def b')
  from c1 c2 c3 c4 c5 show ?thesis
    unfolding removed_def fb'_def by blast
qed

lemma sample_last_updates:
  "last_update (add_obs (new_student_buffer 1 60) (obs_at 0 ''forward'')) = Some 0"
  "last_update (add_obs (new_student_buffer 2 60) (obs_at 250 ''left'')) = Some 250"
  by (simp_all add: last_update_add_obs obs_at_def)

lemma sample_cleanup:
  "fst (cleanup_inactive_students sample_buffers 300 300) = []"
  "fst (cleanup_inactive_students sample_buffers 301 300) = [1]"
  by (simp_all add: cleanup_inactive_students_def sample_buffers_def sample_last_updates)

theorem eviction_witness:
  "distinct (map fst (buffers sample_buffers))
   \<and> fst (cleanup_inactive_students sample_buffers 300 300) = []
   \<and> fst (cleanup_inactive_students sample_buffers 301 300) = [1]
   \<and> get_student_buffer (snd (cleanup_inactive_students sample_buffers 301 300)) 1 = None
   \<and> get_student_buffer (snd (cleanup_inactive_students sample_buffers 301 300)) 2
       = get_student_buffer sample_buffers 2"
proof -
  have h: "distinct (map fst (buffers sample_buffers))"
    by (simp add: sample_buffers_def)
  from eviction [OF h, of 301 300] h show ?thesis
    by (simp add: sample_cleanup)
qed

section \<open>The head-direction distribution\<close>

lemma round_half_even_err: "\<bar>of_int (round_half_even x) - x\<bar> \<le> 1 / 2"
  unfolding round_half_even_def Let_def by (auto; linarith)

lemma py_round3_err: "\<bar>py_round v 3 - v\<bar> \<le> 1 / 2000"
proof -
  have "\<bar>of_int (round_half_even (v * 1000)) - v * 1000\<bar> \<le> 1 / 2"
    by (rule round_half_even_err)
  then show ?thesis
    by (simp add: py_round_def field_simps abs_le_iff)
qed

lemma sum_dict_incr: "sum_list (map snd (dict_incr k d)) = sum_list (map snd d) + 1"
  by (induction k d rule: dict_incr.induct) auto

lemma sum_count_directions:
  "sum_list (map snd (count_directions d fs)) = sum_list (map snd d) + int (length fs)"
  by (induction d fs rule: count_directions.induct) (simp_all add: sum_dict_incr)

lemma keys_dict_incr: "fst ` set (dict_incr k d) = insert k (fst ` set d)"
  by (induction k d rule: dict_incr.induct) auto

lemma distinct_dict_incr: "distinct (map fst d) \<Longrightarrow> distinct (map fst (dict_incr k d))"
proof (induction k d rule: dict_incr.induct)
  case (1 k)
  then show ?case by simp
next
  case (2 k k' c kvs)
  then show ?case using keys_dict_incr [of k kvs] by auto
qed

lemma keys_count_directions:
  "fst ` set (count_directions d fs) = fst ` set d \<union> f_head_direction ` set fs"
  by (induction d fs rule: count_directions.induct) (simp_all add: keys_dict_incr)

lemma distinct_count_directions:
  "distinct (map fst d) \<Longrightarrow> distinct (map fst (count_directions d fs))"
  by (induction d fs rule: count_directions.induct) (simp_all add: distinct_dict_incr)

lemma sum_direction_dist:
  assumes "fs \<noteq> []"
  shows "sum_list (map snd (direction_dist fs)) = 1"
proof -
  let ?n = "real (length fs)"
  let ?cs = "map snd (count_directions [] fs)"
  have e1: "map snd (direction_dist fs) = map (\<lambda>c. real_of_int c / ?n) ?cs"
    by (simp add: direction_dist_def Let_def case_prod_unfold comp_def)
  have e2: "sum_list (map (\<lambda>c. real_of_int c / ?n) cs) = real_of_int (sum_list cs) / ?n" for cs
    by (induction cs) (simp_all add: add_divide_distrib)
  have "sum_list (map snd (direction_dist fs)) = sum_list (map (\<lambda>c. real_of_int c / ?n) ?cs)"
    by (simp only: e1)
  also have "\<dots> = real_of_int (sum_list ?cs) / ?n"
    by (rule e2)
  also have "\<dots> = 1"
    using assms by (simp add: sum_count_directions)
  finally show ?thesis .
qed

lemma keys_direction_dist: "map fst (direction_dist fs) = map fst (count_directions [] fs)"
  by (simp add: direction_dist_def Let_def case_prod_unfold comp_def)

lemma snd_rounded:
  "map snd (map (\<lambda>(k, v). (k, py_round v 3)) d) = map (\<lambda>v. py_round v 3) (map snd d)"
  by (induction d) auto

lemma fst_rounded: "map fst (map (\<lambda>(k, v). (k, py_round v 3)) d) = map fst d"
  by (induction d) auto

lemma sum_rounded_vals_err:
  "\<bar>sum_list (map (\<lambda>v. py_round v 3) vs) - sum_list vs\<bar> \<le> real (length vs) / 2000"
proof (induction vs)
  case Nil
  then show ?case by simp
next
  case (Cons v vs)
  let ?S = "sum_list (map (\<lambda>v. py_round v 3) vs)"
  let ?T = "sum_list vs"
  have a: "\<bar>py_round v 3 - v\<bar> \<le> 1 / 2000" by (rule py_round3_err)
  have "\<bar>(py_round v 3 + ?S) - (v + ?T)\<bar> \<le> \<bar>py_round v 3 - v\<bar> + \<bar>?S - ?T\<bar>"
    by linarith
  also have "\<dots> \<le> 1 / 2000 + real (length vs) / 2000"
    using a Cons.IH by linarith
  also have "\<dots> = real (length (v # vs)) / 2000"
    by (simp add: add_divide_distrib)
  finally show ?case by simp
qed

lemma sum_rounded_err:
  "\<bar>sum_list (map snd (map (\<lambda>(k, v). (k, py_round v 3)) d)) - sum_list (map snd d)\<bar>
     \<le> real (length d) / 2000"
  unfolding snd_rounded using sum_rounded_vals_err [of "map snd d"] by simp

lemma returned_distribution_eq:
  "features b \<noteq> [] \<Longrightarrow>
   returned_distribution b = map (\<lambda>(k, v). (k, py_round v 3)) (direction_dist (features b))"
  by (simp add: returned_distribution_def get_statistics_def Let_def get_or_def)

lemma three_directions_features:
  "features three_directions = [obs_at 0 ''forward'', obs_at 1 ''left'', obs_at 2 ''right'']"
  by (simp add: three_directions_def features_add_obs window_size_add_obs
      new_student_buffer_def obs_at_def)

lemma three_directions_dist:
  "direction_dist [obs_at 0 ''forward'', obs_at 1 ''left'', obs_at 2 ''right'']
     = [(''forward'', 1 / 3), (''left'', 1 / 3), (''right'', 1 / 3)]"
  by (simp add: direction_dist_def obs_at_def Let_def)

lemma round_third: "py_round (1 / 3) 3 = 333 / 1000"
  by (simp add: py_round_def round_half_even_def Let_def)

lemma three_directions_returned:
  "returned_distribution three_directions
     = [(''forward'', 333 / 1000), (''left'', 333 / 1000), (''right'', 333 / 1000)]"
  by (simp add: returned_distribution_eq three_directions_features three_directions_dist
      round_third)

text \<open>
  Claim C10, as stated, fails: a buffer holding one observation of each of three directions
  is non-empty, and its returned fractions are 0.333 each, with sum 0.999.
\<close>

theorem distribution_sum_counterexample:
  "features three_directions \<noteq> []
   \<and> sum_list (map snd (returned_distribution three_directions)) \<noteq> 1"
  by (simp add: three_directions_returned three_directions_features)

text \<open>
  Claim C10, amended. For every non-empty buffer the statistics query returns one value per
  observed category, the fraction count/total rounded to three decimals. The unrounded
  fractions sum to exactly 1; the returned values sum to 1 up to 0.0005 per category.
\<close>

theorem distribution_sum:
  assumes "features b \<noteq> []"
  shows "returned_distribution b
        = map (\<lambda>(k, v). (k, py_round v 3)) (direction_dist (features b))
     \<and> sum_list (map snd (direction_dist (features b))) = 1
     \<and> \<bar>sum_list (map snd (returned_distribution b)) - 1\<bar>
          \<le> real (length (returned_distribution b)) / 2000
     \<and> distinct (map fst (returned_distribution b))
     \<and> set (map fst (returned_distribution b)) = f_head_direction ` set (features b)"
proof -
  let ?d = "direction_dist (features b)"
  have r: "returned_distribution b = map (\<lambda>(k, v). (k, py_round v 3)) ?d"
    using assms by (rule returned_distribution_eq)
  have s: "sum_list (map snd ?d) = 1"
    using assms by (rule sum_direction_dist)
  have e: "\<bar>sum_list (map snd (returned_distribution b)) - 1\<bar>
      \<le> real (length (returned_distribution b)) / 2000"
    using sum_rounded_err [of ?d] unfolding r s by simp
  have k: "map fst (returned_distribution b) = map fst (count_directions [] (features b))"
    unfolding r fst_rounded by (rule keys_direction_dist)
  have d: "distinct (map fst (returned_distribution b))"
    unfolding k by (rule distinct_count_directions) simp
  have c: "set (map fst (returned_distribution b)) = f_head_direction ` set (features b)"
    unfolding k using keys_count_directions [of "[]" "features b"] by simp
  from r s e d c show ?thesis by blast
qed

theorem distribution_sum_witness:
  "features three_directions \<noteq> []
   \<and> sum_list (map snd (direction_dist (features three_directions))) = 1
   \<and> sum_list (map snd (returned_distribution three_directions)) = 999 / 1000
   \<and> map fst (returned_distribution three_directions) = [''forward'', ''left'', ''right'']"
proof -
  have h: "features three_directions \<noteq> []"
    by (simp add: three_directions_features)
  have a: "sum_list (map snd (direction_dist (features three_directions))) = 1"
    using distribution_sum [OF h] by blast
  have b: "sum_list (map snd (returned_distribution three_directions)) = 999 / 1000"
    by (simp add: three_directions_returned)
  have c: "map fst (returned_distribution three_directions) = [''forward'', ''left'', ''right'']"
    by (simp add: three_directions_returned)
  from h a b c show ?thesis by blast
qed

section \<open>Trend classification\<close>

lemma trend_cmp:
  "(if (r::real) > older + 0.1 then ''increasing''
    else if r < older - 0.1 then ''decreasing'' else ''stable'') = trend_of r older"
  by (auto simp: trend_of_def)

lemma trend_short:
  "calculate_phone_trend (without_history self t) t r = ''stable''"
  "calculate_phone_trend (with_history self t []) t r = ''stable''"
  "calculate_phone_trend (with_history self t [a]) t r = ''stable''"
  by (simp_all add: calculate_phone_trend_def with_history_def without_history_def)

lemma trend_two:
  "calculate_phone_trend (with_history self t [a, b]) t r = trend_of b a"
  by (simp add: calculate_phone_trend_def with_history_def trend_cmp)

lemma trend_three:
  "calculate_phone_trend (with_history self t [a, b, c]) t r = trend_of (mean [a, b, c]) a"
  by (simp add: calculate_phone_trend_def with_history_def mean_def trend_cmp)

lemma trend_more:
  "calculate_phone_trend (with_history self t (e # older @ [x, y, z])) t r
     = trend_of (mean [x, y, z]) (mean (e # older))"
  by (simp add: calculate_phone_trend_def with_history_def mean_def trend_cmp)

lemma trend_example:
  "calculate_phone_trend (with_history self t [1 / 10, 1 / 10, 9 / 10, 9 / 10, 9 / 10]) t r
     = ''increasing''"
  by (simp add: calculate_phone_trend_def with_history_def)

text \<open>
  Claim C5, as stated, fails: with five samples, two of which precede the last three, the
  code compares against the mean of those two (0.25 here, trend stable), not against the
  single earliest sample (0, which would give increasing).
\<close>

theorem phone_trend_counterexample:
  "calculate_phone_trend
     (with_history new_temporal_aggregator 7 [0, 1 / 2, 3 / 10, 3 / 10, 3 / 10]) 7 (3 / 10)
     = ''stable''
   \<and> spec_phone_trend [0, 1 / 2, 3 / 10, 3 / 10, 3 / 10] = ''increasing''"
  by (simp add: calculate_phone_trend_def with_history_def spec_phone_trend_def
      trend_of_def mean_def)

text \<open>
  Claim C5, amended. Without a history, or with fewer than two samples, the trend is
  stable. Two samples are compared directly. With exactly three samples their mean is
  compared with the earliest of them. With more than three, the mean of the last three is
  compared with the mean of all samples before them. The result is increasing if the recent
  value exceeds the older one by more than 0.1, decreasing if it is smaller by more than 0.1,
  else stable; the history 0.1, 0.1, 0.9, 0.9, 0.9 is increasing.
\<close>

theorem phone_trend_cases:
  "calculate_phone_trend (without_history self t) t r = ''stable''
   \<and> calculate_phone_trend (with_history self t []) t r = ''stable''
   \<and> calculate_phone_trend (with_history self t [a]) t r = ''stable''
   \<and> calculate_phone_trend (with_history self t [a, b]) t r = trend_of b a
   \<and> calculate_phone_trend (with_history self t [a, b, c]) t r = trend_of (mean [a, b, c]) a
   \<and> calculate_phone_trend (with_history self t (e # older @ [x, y, z])) t r
       = trend_of (mean [x, y, z]) (mean (e # older))
   \<and> calculate_phone_trend (with_history self t [1 / 10, 1 / 10, 9 / 10, 9 / 10, 9 / 10]) t r
       = ''increasing''"
proof -
  have short: "calculate_phone_trend (without_history self t) t r = ''stable''
      \<and> calculate_phone_trend (with_history self t []) t r = ''stable''
      \<and> calculate_phone_trend (with_history self t [a]) t r = ''stable''"
    by (simp only: trend_short simp_thms)
  have direct: "calculate_phone_trend (with_history self t [a, b]) t r = trend_of b a"
    by (rule trend_two)
  have three: "calculate_phone_trend (with_history self t [a, b, c]) t r
      = trend_of (mean [a, b, c]) a"
    by (rule trend_three)
  have more: "calculate_phone_trend (with_history self t (e # older @ [x, y, z])) t r
      = trend_of (mean [x, y, z]) (mean (e # older))"
    by (rule trend_more)
  have example: "calculate_phone_trend
      (with_history self t [1 / 10, 1 / 10, 9 / 10, 9 / 10, 9 / 10]) t r = ''increasing''"
    by (rule trend_example)
  from short direct three more example show ?thesis by blast
qed

section \<open>The trend history is never written\<close>

lemma cleanup_history_le:
  "phone_history (cleanup_track_history s t) \<subseteq>\<^sub>m phone_history s"
  by (auto simp: cleanup_track_history_def map_le_def)

lemma run_ops_history:
  "phone_history (snd (run_ops s ops)) \<subseteq>\<^sub>m phone_history s"
proof (induction s ops rule: run_ops.induct)
  case (1 self)
  then show ?case by simp
next
  case (2 self track_id ts stats raw ops)
  then show ?case by simp
next
  case (3 self track_id ops)
  then show ?case
    using cleanup_history_le [of self track_id] by (auto intro: map_le_trans)
qed

lemma trend_no_history:
  "phone_history s = Map.empty \<Longrightarrow> calculate_phone_trend s t r = ''stable''"
  by (simp add: calculate_phone_trend_def)

lemma aggregate_no_history:
  "phone_history s = Map.empty \<Longrightarrow> phone_trend (aggregate s t ts stats raw) = ''stable''"
  by (cases raw) (simp_all add: aggregate_def Let_def create_empty_metrics_def trend_no_history)

lemma run_ops_stable:
  "phone_history s = Map.empty \<Longrightarrow>
   \<forall>m\<in>set (fst (run_ops s ops)). phone_trend m = ''stable''"
proof (induction s ops rule: run_ops.induct)
  case (1 self)
  then show ?case by simp
next
  case (2 self track_id ts stats raw ops)
  then show ?case by (simp add: aggregate_no_history)
next
  case (3 self track_id ops)
  then show ?case by (simp add: cleanup_track_history_def)
qed

text \<open>
  Claim C2. Whatever sequence of \<^verbatim>\<open>aggregate\<close> and \<^verbatim>\<open>cleanup_track_history\<close>
  calls is run, from any state, the trend history afterwards is contained in the history
  before: no entry is added or changed. From a fresh aggregator the history stays empty and
  every returned snapshot has the trend stable.
\<close>

theorem phone_history_never_grows:
  "phone_history (snd (run_ops s ops)) \<subseteq>\<^sub>m phone_history s
   \<and> phone_history (snd (run_ops new_temporal_aggregator ops)) = Map.empty
   \<and> (\<forall>m\<in>set (fst (run_ops new_temporal_aggregator ops)). phone_trend m = ''stable'')"
proof -
  have "phone_history (snd (run_ops new_temporal_aggregator ops)) \<subseteq>\<^sub>m Map.empty"
    using run_ops_history [of new_temporal_aggregator ops]
    by (simp add: new_temporal_aggregator_def)
  then have "phone_history (snd (run_ops new_temporal_aggregator ops)) = Map.empty"
    by (intro map_le_antisym) simp_all
  then show ?thesis
    using run_ops_history [of s ops] run_ops_stable [of new_temporal_aggregator ops]
    by (simp add: new_temporal_aggregator_def)
qed

theorem phone_history_never_grows_witness:
  "map phone_trend (fst (run_ops new_temporal_aggregator
      [Aggregate 7 10 (sample_stats 6 ''left'') (Some 0),
       Aggregate 7 11 (sample_stats 6 ''left'') (Some 1),
       CleanupTrackHistory 7,
       Aggregate 7 12 (sample_stats 6 ''left'') None])) = [''stable'', ''stable'', ''stable'']"
  using phone_history_never_grows [of new_temporal_aggregator
      "[Aggregate 7 10 (sample_stats 6 ''left'') (Some 0),
       Aggregate 7 11 (sample_stats 6 ''left'') (Some 1),
       CleanupTrackHistory 7,
       Aggregate 7 12 (sample_stats 6 ''left'') None]"]
  by simp

section \<open>Engagement risk\<close>

lemma aggregate_engagement_risk_score:
  assumes "get_or (st_feature_count stats) 0 \<noteq> 0"
  shows "engagement_risk_score (aggregate self t ts stats raw)
     = calculate_engagement_risk (attention_score (aggregate self t ts stats raw))
         (phone_risk_score (aggregate self t ts stats raw))
         (looking_away_rate (aggregate self t ts stats raw))"
  using assms by (cases raw) (simp_all add: aggregate_def Let_def)

lemma aggregate_engagement_risk_level:
  assumes "get_or (st_feature_count stats) 0 \<noteq> 0"
  shows "engagement_risk_level (aggregate self t ts stats raw)
     = classify_risk_level (engagement_risk_score (aggregate self t ts stats raw))"
  using assms by (cases raw) (simp_all add: aggregate_def Let_def)

lemma calculate_engagement_risk_eq:
  "calculate_engagement_risk a p l
     = min 1 (max 0 (0.4 * (1 - a) + 0.35 * p + 0.25 * l))"
  by (simp add: calculate_engagement_risk_def Let_def mult.commute)

lemma engagement_risk_example:
  "calculate_engagement_risk 0 1 1 = 1
   \<and> classify_risk_level (calculate_engagement_risk 0 1 1) = ''high''"
proof -
  have "calculate_engagement_risk 0 1 1 = 1"
    by (simp add: calculate_engagement_risk_def)
  moreover have "classify_risk_level 1 = ''high''"
    by (simp add: classify_risk_level_def)
  ultimately show ?thesis by simp
qed

text \<open>
  Claim C4. For statistics with at least one sample, the snapshot's engagement risk score
  is 0.4 (1 - attention_score) + 0.35 phone_risk_score + 0.25 looking_away_rate clamped to
  [0,1], and its level is low below 0.33, medium below 0.67, else high. Attention 0, phone
  risk 1 and looking-away rate 1 give score 1 and level high.
\<close>

theorem engagement_risk_formula:
  assumes "1 \<le> get_or (st_feature_count stats) 0"
  shows "(let m = aggregate self t ts stats raw
          in engagement_risk_score m
               = min 1 (max 0 (0.4 * (1 - attention_score m) + 0.35 * phone_risk_score m
                                + 0.25 * looking_away_rate m))
           \<and> engagement_risk_level m
               = (if engagement_risk_score m < 0.33 then ''low''
                  else if engagement_risk_score m < 0.67 then ''medium'' else ''high''))
     \<and> calculate_engagement_risk 0 1 1 = 1
     \<and> classify_risk_level (calculate_engagement_risk 0 1 1) = ''high''"
proof -
  have ne: "get_or (st_feature_count stats) 0 \<noteq> 0" using assms by simp
  let ?m = "aggregate self t ts stats raw"
  have s: "engagement_risk_score ?m
      = min 1 (max 0 (0.4 * (1 - attention_score ?m) + 0.35 * phone_risk_score ?m
                       + 0.25 * looking_away_rate ?m))"
    unfolding aggregate_engagement_risk_score [OF ne] by (rule calculate_engagement_risk_eq)
  have l: "engagement_risk_level ?m
      = (if engagement_risk_score ?m < 0.33 then ''low''
         else if engagement_risk_score ?m < 0.67 then ''medium'' else ''high'')"
    unfolding aggregate_engagement_risk_level [OF ne] by (rule classify_risk_level_def)
  from s l engagement_risk_example show ?thesis
    unfolding Let_def by blast
qed

lemma sample_aggregate:
  "aggregate new_temporal_aggregator 7 12 (sample_stats 6 ''left'') (Some 1)
   = \<lparr>m_track_id = 7, m_timestamp = 12,
      observation_duration = 3, sample_count = 6,
      attention_score = 0, looking_away_rate = 1, direction_stability = 1,
      phone_risk_score = 1, phone_detection_rate = 1 / 2, phone_trend = ''stable'',
      engagement_risk_level = ''high'', engagement_risk_score = 1,
      primary_behavior = ''distracted_phone'', avg_confidence = 9 / 10,
      data_quality = ''medium'', m_identity_name = None\<rparr>"
  by (simp add: aggregate_def sample_stats_def get_or_def Let_def new_temporal_aggregator_def
      calculate_phone_trend_def determine_primary_behavior_def assess_data_quality_def
      calculate_engagement_risk_def classify_risk_level_def)

theorem engagement_risk_formula_witness:
  "1 \<le> get_or (st_feature_count (sample_stats 6 ''left'')) 0
   \<and> engagement_risk_score
       (aggregate new_temporal_aggregator 7 12 (sample_stats 6 ''left'') (Some 1)) = 1
   \<and> engagement_risk_level
       (aggregate new_temporal_aggregator 7 12 (sample_stats 6 ''left'') (Some 1)) = ''high''"
proof -
  have h: "1 \<le> get_or (st_feature_count (sample_stats 6 ''left'')) 0"
    by (simp add: sample_stats_def get_or_def)
  from engagement_risk_formula [OF h, of new_temporal_aggregator 7 12 "Some 1"] h
  show ?thesis
    unfolding sample_aggregate Let_def by simp
qed

section \<open>Aggregation without samples\<close>

text \<open>
  Claim C8. When the statistics report no sample (the count is 0 or absent),
  \<^verbatim>\<open>aggregate\<close> returns the neutral snapshot: it carries the given track id and
  timestamp, and every other field is a constant, whatever the aggregator's state, the other
  statistics and the fused risk are. The function is total, so the call cannot fail.
\<close>

theorem empty_aggregation:
  assumes "get_or (st_feature_count stats) 0 = 0"
  shows "aggregate self track_id ts stats raw =
     \<lparr>m_track_id = track_id, m_timestamp = ts,
      observation_duration = 0, sample_count = 0,
      attention_score = 1 / 2, looking_away_rate = 1 / 2, direction_stability = 0,
      phone_risk_score = 0, phone_detection_rate = 0, phone_trend = ''stable'',
      engagement_risk_level = ''low'', engagement_risk_score = 1 / 2,
      primary_behavior = ''unknown'', avg_confidence = 0, data_quality = ''low'',
      m_identity_name = None\<rparr>"
  using assms by (simp add: aggregate_def Let_def create_empty_metrics_def)

theorem empty_aggregation_witness:
  "get_or (st_feature_count (get_statistics (new_student_buffer 7 60))) 0 = 0
   \<and> attention_score (aggregate new_temporal_aggregator 7 12
        (get_statistics (new_student_buffer 7 60)) (Some 1)) = 1 / 2
   \<and> data_quality (aggregate new_temporal_aggregator 7 12
        (get_statistics (new_student_buffer 7 60)) (Some 1)) = ''low''"
proof -
  have h: "get_or (st_feature_count (get_statistics (new_student_buffer 7 60))) 0 = 0"
    by (simp add: get_statistics_def new_student_buffer_def get_or_def)
  from empty_aggregation [OF h, of new_temporal_aggregator 7 12 "Some 1"] h
  show ?thesis by simp
qed

section \<open>The rule engine\<close>

text \<open>
  Claim C3. For a snapshot of low data quality with fewer than three samples,
  \<^verbatim>\<open>evaluate\<close> returns exactly the one quality alert, of level INFO, when the sample
  count is positive, and the empty list otherwise; no other rule contributes, whatever the
  other fields and the engine's thresholds and history are.
\<close>

theorem low_quality_short_circuit:
  assumes "data_quality m = ''low''" and "sample_count m < 3"
  shows "fst (evaluate e m) = (if 0 < sample_count m then [quality_warning m] else [])
     \<and> alert_type (quality_warning m) = QUALITY_WARNING
     \<and> alert_level (quality_warning m) = INFO"
  using assms by (simp add: evaluate_def quality_warning_def)

theorem low_quality_short_circuit_witness:
  "data_quality (sample_metrics 2 ''low'') = ''low''
   \<and> sample_count (sample_metrics 2 ''low'') < 3
   \<and> map alert_type (fst (evaluate (new_rule_engine None) (sample_metrics 2 ''low'')))
       = [QUALITY_WARNING]
   \<and> map alert_level (fst (evaluate (new_rule_engine None) (sample_metrics 2 ''low'')))
       = [INFO]
   \<and> fst (evaluate (new_rule_engine None) (sample_metrics 0 ''low'')) = []"
  using low_quality_short_circuit [of "sample_metrics 2 ''low''" "new_rule_engine None"]
    low_quality_short_circuit [of "sample_metrics 0 ''low''" "new_rule_engine None"]
  by (simp add: sample_metrics_def)

text \<open>
  Claim C1, as stated, fails: on the low-quality path the engine returns before it stores
  the snapshot, so a fresh engine still has no previous snapshot for the entity.
\<close>

theorem history_update_counterexample:
  "previous_metrics (snd (evaluate (new_rule_engine None) (sample_metrics 2 ''low'')))
     (m_track_id (sample_metrics 2 ''low'')) \<noteq> Some (sample_metrics 2 ''low'')"
  by (simp add: evaluate_def sample_metrics_def new_rule_engine_def Let_def get_or_def
      empty_config_def)

lemma evaluate_low_quality_state:
  "data_quality m = ''low'' \<and> sample_count m < 3 \<Longrightarrow> snd (evaluate e m) = e"
  by (simp add: evaluate_def)

text \<open>
  Claim C1, amended. On every call that does not take the low-quality path (data quality
  low and fewer than three samples), the snapshot replaces the previous one stored for its
  entity, whether or not an alert fired; the snapshots of the other entities are kept.
\<close>

theorem history_update:
  assumes "\<not> (data_quality m = ''low'' \<and> sample_count m < 3)"
  shows "previous_metrics (snd (evaluate e m)) = (previous_metrics e)(m_track_id m \<mapsto> m)"
  using assms by (auto simp: evaluate_def Let_def)

lemma quiet_no_alert: "fst (evaluate (new_rule_engine None) quiet_metrics) = []"
  by (simp add: evaluate_def quiet_metrics_def new_rule_engine_def Let_def get_or_def
      empty_config_def rule_attention_drop_def)

theorem history_update_witness:
  "\<not> (data_quality quiet_metrics = ''low'' \<and> sample_count quiet_metrics < 3)
   \<and> fst (evaluate (new_rule_engine None) quiet_metrics) = []
   \<and> previous_metrics (snd (evaluate (new_rule_engine None) quiet_metrics)) 7
       = Some quiet_metrics
   \<and> previous_metrics (snd (evaluate (new_rule_engine None) (sample_metrics 6 ''low''))) 7
       = Some (sample_metrics 6 ''low'')"
proof -
  have h1: "\<not> (data_quality (sample_metrics 6 ''low'') = ''low''
      \<and> sample_count (sample_metrics 6 ''low'') < 3)"
    by (simp add: sample_metrics_def)
  have h2: "\<not> (data_quality quiet_metrics = ''low'' \<and> sample_count quiet_metrics < 3)"
    by (simp add: quiet_metrics_def)
  have t: "m_track_id (sample_metrics 6 ''low'') = 7" "m_track_id quiet_metrics = 7"
    by (simp_all add: sample_metrics_def quiet_metrics_def)
  from history_update [OF h1, of "new_rule_engine None"]
    history_update [OF h2, of "new_rule_engine None"] h2 quiet_no_alert
  show ?thesis by (simp add: t)
qed

end
